theory Spec2Isabelle
  imports Main "HOL-Library.Word"
begin

section \<open>Strings of the page\<close>

text \<open>
  A JavaScript string is a sequence of 16-bit code units. The literals of
  \<^verbatim>\<open>src/app/todo/page.tsx\<close> are all ASCII; \<open>js\<close> embeds such a literal.
\<close>

type_synonym jsstring = "16 word list"

definition js :: "string \<Rightarrow> jsstring" where
  "js s = map of_char s"

text \<open>
  \<^verbatim>\<open>String.prototype.trim\<close> removes the ECMAScript WhiteSpace and LineTerminator
  code points from both ends: TAB, LF, VT, FF, CR, SP, NBSP, the Unicode
  space separators, LS, PS and the byte order mark.
\<close>

definition is_white_space :: "16 word \<Rightarrow> bool" where
  "is_white_space c \<longleftrightarrow>
     c = 0x0009 \<or> c = 0x000A \<or> c = 0x000B \<or> c = 0x000C \<or> c = 0x000D \<or>
     c = 0x0020 \<or> c = 0x00A0 \<or> c = 0x1680 \<or>
     (0x2000 \<le> c \<and> c \<le> 0x200A) \<or>
     c = 0x2028 \<or> c = 0x2029 \<or> c = 0x202F \<or> c = 0x205F \<or>
     c = 0x3000 \<or> c = 0xFEFF"

definition trim :: "jsstring \<Rightarrow> jsstring" where
  "trim s = rev (dropWhile is_white_space (rev (dropWhile is_white_space s)))"

section \<open>Data model\<close>

text \<open>
  \<^verbatim>\<open>src/types/todo.ts\<close>: a \<open>Todo\<close> extends Appwrite's \<open>Models.Document\<close> by the
  fields \<open>todo\<close>, \<open>userId\<close> and \<open>completed\<close>. Of the document the page reads
  only \<open>$id\<close>; the remaining document fields are carried along untouched and
  are the type parameter \<open>'d\<close>.
\<close>

record 'd Document =
  dollar_id :: jsstring
  dollar_rest :: 'd

record 'd Todo = "'d Document" +
  todo :: jsstring
  userId :: jsstring
  completed :: bool

text \<open>The \<open>useState\<close> cells of \<open>TodoPage\<close>, in the order they are declared.\<close>

record 'd state =
  todoText :: jsstring
  editingId :: "jsstring option"
  editText :: jsstring
  todos :: "'d Todo list"
  loading :: bool
  error :: "jsstring option"

definition initial_state :: "'d state" where
  "initial_state =
     \<lparr>todoText = [], editingId = None, editText = [], todos = [],
      loading = False, error = None\<rparr>"

definition DATABASE_ID :: jsstring where
  "DATABASE_ID = js ''todos''"

definition COLLECTION_ID :: jsstring where
  "COLLECTION_ID = js ''todosdata''"

section \<open>The remote store\<close>

text \<open>The object literal handed to \<open>createDocument\<close>.\<close>

record create_data =
  new_todo :: jsstring
  new_userId :: jsstring
  new_completed :: bool

text \<open>The partial object handed to \<open>updateDocument\<close>: one key, either of two.\<close>

datatype update_data = Completed_field bool | Todo_field jsstring

text \<open>
  The module \<^verbatim>\<open>@/lib/appwrite\<close> exports \<open>databases\<close> and \<open>ID\<close>. Each method of
  \<open>databases\<close> returns a promise that the handlers await inside \<open>try\<close>: \<open>None\<close>
  is a rejected promise (the \<open>catch\<close> branch runs), \<open>Some r\<close> a promise
  resolved with \<open>r\<close>. \<open>listDocuments\<close> resolves with an object of which the
  page reads \<open>documents\<close>. \<open>ID_unique\<close> is the value of \<open>ID.unique()\<close>.
\<close>

record 'd appwrite =
  listDocuments :: "jsstring \<Rightarrow> jsstring \<Rightarrow> 'd Todo list option"
  createDocument :: "jsstring \<Rightarrow> jsstring \<Rightarrow> jsstring \<Rightarrow> create_data \<Rightarrow> 'd Todo option"
  updateDocument :: "jsstring \<Rightarrow> jsstring \<Rightarrow> jsstring \<Rightarrow> update_data \<Rightarrow> 'd Todo option"
  deleteDocument :: "jsstring \<Rightarrow> jsstring \<Rightarrow> jsstring \<Rightarrow> unit option"
  ID_unique :: jsstring

text \<open>The requests a handler issues, in the order it issues them.\<close>

datatype request =
  ListDocuments jsstring jsstring
| CreateDocument jsstring jsstring jsstring create_data
| UpdateDocument jsstring jsstring jsstring update_data
| DeleteDocument jsstring jsstring jsstring

section \<open>The handlers of \<open>TodoPage\<close>\<close>

text \<open>
  A handler runs from the state it is called in to the state it leaves when
  its promise settles, and returns the requests it made. The statements of
  the source are kept in their order: \<open>setLoading(true)\<close> and
  \<open>setError(null)\<close> before the request, the \<open>try\<close> or the \<open>catch\<close> branch after
  it, \<open>setLoading(false)\<close> in \<open>finally\<close>.
\<close>

definition fetchTodos :: "'d appwrite \<Rightarrow> 'd state \<Rightarrow> 'd state \<times> request list" where
  "fetchTodos db s =
     (let s1 = s\<lparr>loading := True\<rparr>;
          s2 = s1\<lparr>error := None\<rparr>;
          s3 = (case listDocuments db DATABASE_ID COLLECTION_ID of
                  Some documents \<Rightarrow> s2\<lparr>todos := documents\<rparr>
                | None \<Rightarrow> s2\<lparr>error := Some (js ''Failed to fetch todos'')\<rparr>)
      in (s3\<lparr>loading := False\<rparr>, [ListDocuments DATABASE_ID COLLECTION_ID]))"

definition handleSubmit :: "'d appwrite \<Rightarrow> 'd state \<Rightarrow> 'd state \<times> request list" where
  "handleSubmit db s =
     (if trim (todoText s) = [] then (s, [])
      else
        let s1 = s\<lparr>loading := True\<rparr>;
            s2 = s1\<lparr>error := None\<rparr>;
            data = \<lparr>new_todo = trim (todoText s), new_userId = js ''1'',
                    new_completed = False\<rparr>;
            s3 = (case createDocument db DATABASE_ID COLLECTION_ID (ID_unique db) data of
                    Some response \<Rightarrow> s2\<lparr>todos := todos s2 @ [response], todoText := []\<rparr>
                  | None \<Rightarrow> s2\<lparr>error := Some (js ''Failed to create todo'')\<rparr>)
        in (s3\<lparr>loading := False\<rparr>,
            [CreateDocument DATABASE_ID COLLECTION_ID (ID_unique db) data]))"

definition handleInputChange :: "jsstring \<Rightarrow> 'd state \<Rightarrow> 'd state" where
  "handleInputChange v s = s\<lparr>todoText := v\<rparr>"

text \<open>The function mapped over the list by \<open>toggleTodo\<close> on success.\<close>

definition toggle_map :: "jsstring \<Rightarrow> 'd Todo list \<Rightarrow> 'd Todo list" where
  "toggle_map i prevTodos =
     map (\<lambda>t. if dollar_id t = i then t\<lparr>completed := \<not> completed t\<rparr> else t) prevTodos"

definition toggleTodo :: "'d appwrite \<Rightarrow> jsstring \<Rightarrow> 'd state \<Rightarrow> 'd state \<times> request list" where
  "toggleTodo db i s =
     (case find (\<lambda>t. dollar_id t = i) (todos s) of
        None \<Rightarrow> (s, [])
      | Some todoToUpdate \<Rightarrow>
          let s1 = s\<lparr>loading := True\<rparr>;
              s2 = s1\<lparr>error := None\<rparr>;
              data = Completed_field (\<not> completed todoToUpdate);
              s3 = (case updateDocument db DATABASE_ID COLLECTION_ID i data of
                      Some response \<Rightarrow> s2\<lparr>todos := toggle_map i (todos s2)\<rparr>
                    | None \<Rightarrow> s2\<lparr>error := Some (js ''Failed to update todo'')\<rparr>)
          in (s3\<lparr>loading := False\<rparr>,
              [UpdateDocument DATABASE_ID COLLECTION_ID i data]))"

definition deleteTodo :: "'d appwrite \<Rightarrow> jsstring \<Rightarrow> 'd state \<Rightarrow> 'd state \<times> request list" where
  "deleteTodo db i s =
     (let s1 = s\<lparr>loading := True\<rparr>;
          s2 = s1\<lparr>error := None\<rparr>;
          s3 = (case deleteDocument db DATABASE_ID COLLECTION_ID i of
                  Some _ \<Rightarrow> s2\<lparr>todos := filter (\<lambda>t. dollar_id t \<noteq> i) (todos s2)\<rparr>
                | None \<Rightarrow> s2\<lparr>error := Some (js ''Failed to delete todo'')\<rparr>)
      in (s3\<lparr>loading := False\<rparr>, [DeleteDocument DATABASE_ID COLLECTION_ID i]))"

definition updateToDo :: "jsstring \<Rightarrow> 'd state \<Rightarrow> 'd state" where
  "updateToDo i s =
     (case find (\<lambda>t. dollar_id t = i) (todos s) of
        Some todoToEdit \<Rightarrow> s\<lparr>editingId := Some i, editText := todo todoToEdit\<rparr>
      | None \<Rightarrow> s)"

definition handleUpdateText :: "jsstring \<Rightarrow> 'd state \<Rightarrow> 'd state" where
  "handleUpdateText v s = s\<lparr>editText := v\<rparr>"

definition saveUpdate :: "'d appwrite \<Rightarrow> jsstring \<Rightarrow> 'd state \<Rightarrow> 'd state \<times> request list" where
  "saveUpdate db i s =
     (if trim (editText s) = [] then (s, [])
      else
        let s1 = s\<lparr>loading := True\<rparr>;
            s2 = s1\<lparr>error := None\<rparr>;
            data = Todo_field (trim (editText s));
            s3 = (case updateDocument db DATABASE_ID COLLECTION_ID i data of
                    Some response \<Rightarrow>
                      s2\<lparr>todos := map (\<lambda>t. if dollar_id t = i
                                             then t\<lparr>todo := trim (editText s)\<rparr> else t)
                                       (todos s2),
                         editingId := None, editText := []\<rparr>
                  | None \<Rightarrow> s2\<lparr>error := Some (js ''Failed to update todo text'')\<rparr>)
        in (s3\<lparr>loading := False\<rparr>,
            [UpdateDocument DATABASE_ID COLLECTION_ID i data]))"

definition cancelUpdate :: "'d state \<Rightarrow> 'd state" where
  "cancelUpdate s = s\<lparr>editingId := None, editText := []\<rparr>"

text \<open>
  The wiring of the rendered page: the effect run on mount and the event
  handlers of the form, of the checkbox, of the edit field (Enter saves,
  Escape cancels) and of the Save, Cancel, Delete and Update buttons of an
  entry. The synchronous handlers reach no method of \<open>databases\<close>.
\<close>

datatype event =
  Mount
| Submit
| Input_change jsstring
| Checkbox_change jsstring
| Delete_click jsstring
| Update_click jsstring
| Edit_change jsstring
| Save jsstring
| Cancel

fun TodoPage :: "'d appwrite \<Rightarrow> event \<Rightarrow> 'd state \<Rightarrow> 'd state \<times> request list" where
  "TodoPage db Mount s = fetchTodos db s"
| "TodoPage db Submit s = handleSubmit db s"
| "TodoPage db (Input_change v) s = (handleInputChange v s, [])"
| "TodoPage db (Checkbox_change i) s = toggleTodo db i s"
| "TodoPage db (Delete_click i) s = deleteTodo db i s"
| "TodoPage db (Update_click i) s = (updateToDo i s, [])"
| "TodoPage db (Edit_change v) s = (handleUpdateText v s, [])"
| "TodoPage db (Save i) s = saveUpdate db i s"
| "TodoPage db Cancel s = (cancelUpdate s, [])"

section \<open>Concrete stores and states\<close>

text \<open>
  Two stores over documents with no further fields: one that rejects every
  request, one that resolves every request the way the hosted service does
  for the collection holding \<open>milk\<close> and \<open>bread\<close>; and a page state over them.
\<close>

definition milk :: "unit Todo" where
  "milk = \<lparr>dollar_id = js ''t1'', dollar_rest = (), todo = js ''Buy milk'',
           userId = js ''1'', completed = True\<rparr>"

definition bread :: "unit Todo" where
  "bread = \<lparr>dollar_id = js ''t2'', dollar_rest = (), todo = js ''Buy bread'',
            userId = js ''1'', completed = False\<rparr>"

definition store_down :: "unit appwrite" where
  "store_down =
     \<lparr>listDocuments = (\<lambda>d c. None),
      createDocument = (\<lambda>d c i data. None),
      updateDocument = (\<lambda>d c i data. None),
      deleteDocument = (\<lambda>d c i. None),
      ID_unique = js ''n1''\<rparr>"

definition store_up :: "unit appwrite" where
  "store_up =
     \<lparr>listDocuments = (\<lambda>d c. Some [milk, bread]),
      createDocument = (\<lambda>d c i data.
        Some \<lparr>dollar_id = i, dollar_rest = (), todo = new_todo data,
              userId = new_userId data, completed = new_completed data\<rparr>),
      updateDocument = (\<lambda>d c i data.
        Some (case data of
                Completed_field b \<Rightarrow> milk\<lparr>dollar_id := i, completed := b\<rparr>
              | Todo_field x \<Rightarrow> milk\<lparr>dollar_id := i, todo := x\<rparr>)),
      deleteDocument = (\<lambda>d c i. Some ()),
      ID_unique = js ''n1''\<rparr>"

definition page_state :: "unit state" where
  "page_state =
     \<lparr>todoText = js '' Buy eggs '', editingId = Some (js ''t1''),
      editText = js '' Buy oat milk'', todos = [milk, bread],
      loading = False, error = None\<rparr>"

definition blank_state :: "unit state" where
  "blank_state =
     \<lparr>todoText = [0x0020, 0x0009, 0x3000], editingId = None,
      editText = [], todos = [milk, bread],
      loading = False, error = Some (js ''Failed to fetch todos'')\<rparr>"

section \<open>Unfolding\<close>

lemmas handler_defs = fetchTodos_def handleSubmit_def toggleTodo_def deleteTodo_def
  saveUpdate_def updateToDo_def cancelUpdate_def handleInputChange_def handleUpdateText_def

lemmas fixture_defs = milk_def bread_def store_down_def store_up_def page_state_def
  blank_state_def DATABASE_ID_def COLLECTION_ID_def js_def trim_def is_white_space_def
  toggle_map_def

section \<open>Failure of the remote call\<close>

text \<open>
  C1. For each of the five operations (list load, create, toggle, edit-save,
  delete) and every starting state: when the request the operation issues is
  rejected, the state it leaves is the starting state with only the error
  message set to the operation's own wording and the loading flag false. In
  particular the list of todos is the one before the operation.
\<close>

theorem remote_failure_only_sets_error:
  "(listDocuments db DATABASE_ID COLLECTION_ID = None \<longrightarrow>
      fst (TodoPage db Mount s) =
        s\<lparr>error := Some (js ''Failed to fetch todos''), loading := False\<rparr>) \<and>
   (trim (todoText s) \<noteq> [] \<and>
    createDocument db DATABASE_ID COLLECTION_ID (ID_unique db)
      \<lparr>new_todo = trim (todoText s), new_userId = js ''1'', new_completed = False\<rparr> = None \<longrightarrow>
      fst (TodoPage db Submit s) =
        s\<lparr>error := Some (js ''Failed to create todo''), loading := False\<rparr>) \<and>
   (find (\<lambda>t. dollar_id t = i) (todos s) = Some t \<and>
    updateDocument db DATABASE_ID COLLECTION_ID i (Completed_field (\<not> completed t)) = None \<longrightarrow>
      fst (TodoPage db (Checkbox_change i) s) =
        s\<lparr>error := Some (js ''Failed to update todo''), loading := False\<rparr>) \<and>
   (trim (editText s) \<noteq> [] \<and>
    updateDocument db DATABASE_ID COLLECTION_ID i (Todo_field (trim (editText s))) = None \<longrightarrow>
      fst (TodoPage db (Save i) s) =
        s\<lparr>error := Some (js ''Failed to update todo text''), loading := False\<rparr>) \<and>
   (deleteDocument db DATABASE_ID COLLECTION_ID i = None \<longrightarrow>
      fst (TodoPage db (Delete_click i) s) =
        s\<lparr>error := Some (js ''Failed to delete todo''), loading := False\<rparr>)"
  by (simp add: handler_defs)

theorem remote_failure_only_sets_error_witness:
  "listDocuments store_down DATABASE_ID COLLECTION_ID = None \<and>
   fst (TodoPage store_down Mount page_state) =
     page_state\<lparr>error := Some (js ''Failed to fetch todos''), loading := False\<rparr> \<and>
   trim (todoText page_state) \<noteq> [] \<and>
   createDocument store_down DATABASE_ID COLLECTION_ID (ID_unique store_down)
     \<lparr>new_todo = trim (todoText page_state), new_userId = js ''1'', new_completed = False\<rparr> = None \<and>
   fst (TodoPage store_down Submit page_state) =
     page_state\<lparr>error := Some (js ''Failed to create todo''), loading := False\<rparr> \<and>
   find (\<lambda>t. dollar_id t = js ''t1'') (todos page_state) = Some milk \<and>
   updateDocument store_down DATABASE_ID COLLECTION_ID (js ''t1'')
     (Completed_field (\<not> completed milk)) = None \<and>
   fst (TodoPage store_down (Checkbox_change (js ''t1'')) page_state) =
     page_state\<lparr>error := Some (js ''Failed to update todo''), loading := False\<rparr> \<and>
   trim (editText page_state) \<noteq> [] \<and>
   updateDocument store_down DATABASE_ID COLLECTION_ID (js ''t1'')
     (Todo_field (trim (editText page_state))) = None \<and>
   fst (TodoPage store_down (Save (js ''t1'')) page_state) =
     page_state\<lparr>error := Some (js ''Failed to update todo text''), loading := False\<rparr> \<and>
   deleteDocument store_down DATABASE_ID COLLECTION_ID (js ''t1'') = None \<and>
   fst (TodoPage store_down (Delete_click (js ''t1'')) page_state) =
     page_state\<lparr>error := Some (js ''Failed to delete todo''), loading := False\<rparr>"
proof -
  have down: "listDocuments store_down DATABASE_ID COLLECTION_ID = None"
    "createDocument store_down DATABASE_ID COLLECTION_ID (ID_unique store_down)
       \<lparr>new_todo = trim (todoText page_state), new_userId = js ''1'', new_completed = False\<rparr> = None"
    "updateDocument store_down DATABASE_ID COLLECTION_ID (js ''t1'')
       (Completed_field (\<not> completed milk)) = None"
    "updateDocument store_down DATABASE_ID COLLECTION_ID (js ''t1'')
       (Todo_field (trim (editText page_state))) = None"
    "deleteDocument store_down DATABASE_ID COLLECTION_ID (js ''t1'') = None"
    by (simp_all add: store_down_def)
  have draft: "trim (todoText page_state) \<noteq> []" "trim (editText page_state) \<noteq> []"
    by (simp_all add: page_state_def trim_def js_def is_white_space_def)
  have found: "find (\<lambda>t. dollar_id t = js ''t1'') (todos page_state) = Some milk"
    by (simp add: page_state_def milk_def bread_def js_def)
  show ?thesis
    using remote_failure_only_sets_error [of store_down page_state "js ''t1''" milk]
      down draft found
    by simp
qed

section \<open>Create\<close>

text \<open>
  C2. For every input text that is not empty after trimming, submitting the
  form issues exactly one create request, for the fixed database and
  collection, whose fields are the trimmed text, the placeholder owner
  \<open>1\<close> and \<open>completed = false\<close>. When the store resolves it with a document,
  that document is appended at the end of the list and the input field is
  emptied; when the store rejects it, the input text (and the list) stay as
  they were.
\<close>

theorem create_request_and_result:
  assumes "trim (todoText s) \<noteq> []"
  shows "(let data = \<lparr>new_todo = trim (todoText s), new_userId = js ''1'',
                      new_completed = False\<rparr>;
              outcome = createDocument db DATABASE_ID COLLECTION_ID (ID_unique db) data;
              s' = fst (TodoPage db Submit s)
          in snd (TodoPage db Submit s) =
               [CreateDocument DATABASE_ID COLLECTION_ID (ID_unique db) data] \<and>
             (\<forall>doc. outcome = Some doc \<longrightarrow>
                todos s' = todos s @ [doc] \<and> todoText s' = []) \<and>
             (outcome = None \<longrightarrow> todoText s' = todoText s \<and> todos s' = todos s))"
  using assms by (simp add: handleSubmit_def Let_def)

theorem create_request_and_result_witness:
  "trim (todoText page_state) \<noteq> [] \<and>
   snd (TodoPage store_up Submit page_state) =
     [CreateDocument (js ''todos'') (js ''todosdata'') (js ''n1'')
        \<lparr>new_todo = js ''Buy eggs'', new_userId = js ''1'', new_completed = False\<rparr>] \<and>
   todos (fst (TodoPage store_up Submit page_state)) =
     [milk, bread,
      \<lparr>dollar_id = js ''n1'', dollar_rest = (), todo = js ''Buy eggs'',
       userId = js ''1'', completed = False\<rparr>] \<and>
   todoText (fst (TodoPage store_up Submit page_state)) = [] \<and>
   createDocument store_down DATABASE_ID COLLECTION_ID (ID_unique store_down)
     \<lparr>new_todo = trim (todoText page_state), new_userId = js ''1'',
      new_completed = False\<rparr> = None \<and>
   todoText (fst (TodoPage store_down Submit page_state)) = js '' Buy eggs ''"
  using create_request_and_result [of page_state store_up]
    create_request_and_result [of page_state store_down]
  by (simp add: Let_def fixture_defs)

section \<open>Facts about the list functions\<close>

lemma toggle_map_twice: "toggle_map i (toggle_map i ts) = ts"
  by (induction ts) (simp_all add: toggle_map_def)

lemma find_toggle_map:
  "find (\<lambda>t. dollar_id t = i) ts = Some t \<Longrightarrow>
   find (\<lambda>t. dollar_id t = i) (toggle_map i ts) = Some (t\<lparr>completed := \<not> completed t\<rparr>)"
  by (induction ts) (auto simp: toggle_map_def)

lemma find_dollar_id_None:
  "find (\<lambda>t. dollar_id t = i) ts = None \<longleftrightarrow> i \<notin> dollar_id ` set ts"
  by (induction ts) auto

section \<open>Toggle\<close>

text \<open>
  C3. For every list and every id of a todo in it, two toggles whose update
  requests both succeed apply the in-memory update \<open>toggle_map\<close> twice: after
  the first the todo found under the id has its \<open>completed\<close> flag inverted,
  after the second the flag is the original one and the whole list equals
  the original list.
\<close>

theorem toggle_twice_restores:
  assumes present: "find (\<lambda>t. dollar_id t = i) (todos s) = Some t"
    and first: "updateDocument db1 DATABASE_ID COLLECTION_ID i
                  (Completed_field (\<not> completed t)) \<noteq> None"
    and second: "updateDocument db2 DATABASE_ID COLLECTION_ID i
                   (Completed_field (completed t)) \<noteq> None"
  shows "(let s1 = fst (TodoPage db1 (Checkbox_change i) s);
              s2 = fst (TodoPage db2 (Checkbox_change i) s1)
          in todos s1 = toggle_map i (todos s) \<and>
             find (\<lambda>t. dollar_id t = i) (todos s1) = Some (t\<lparr>completed := \<not> completed t\<rparr>) \<and>
             todos s2 = toggle_map i (toggle_map i (todos s)) \<and>
             find (\<lambda>t. dollar_id t = i) (todos s2) = Some t \<and>
             todos s2 = todos s)"
proof -
  let ?s1 = "fst (TodoPage db1 (Checkbox_change i) s)"
  let ?s2 = "fst (TodoPage db2 (Checkbox_change i) ?s1)"
  from present first have one: "todos ?s1 = toggle_map i (todos s)"
    by (auto simp: toggleTodo_def)
  from present have found: "find (\<lambda>t. dollar_id t = i) (todos ?s1) =
      Some (t\<lparr>completed := \<not> completed t\<rparr>)"
    unfolding one by (rule find_toggle_map)
  from found second have two: "todos ?s2 = toggle_map i (todos ?s1)"
    by (auto simp: toggleTodo_def)
  have restored: "todos ?s2 = todos s"
    unfolding two one by (rule toggle_map_twice)
  show ?thesis
    unfolding Let_def using one found two restored present by simp
qed

theorem toggle_twice_restores_witness:
  "find (\<lambda>t. dollar_id t = js ''t1'') (todos page_state) = Some milk \<and>
   updateDocument store_up DATABASE_ID COLLECTION_ID (js ''t1'')
     (Completed_field (\<not> completed milk)) \<noteq> None \<and>
   updateDocument store_up DATABASE_ID COLLECTION_ID (js ''t1'')
     (Completed_field (completed milk)) \<noteq> None \<and>
   todos (fst (TodoPage store_up (Checkbox_change (js ''t1'')) page_state)) =
     [milk\<lparr>completed := False\<rparr>, bread] \<and>
   todos (fst (TodoPage store_up (Checkbox_change (js ''t1''))
            (fst (TodoPage store_up (Checkbox_change (js ''t1'')) page_state)))) =
     [milk, bread]"
  using toggle_twice_restores [of "js ''t1''" page_state milk store_up store_up]
  by (simp add: Let_def fixture_defs)

text \<open>
  C4. For every id that names no todo of the in-memory list, \<open>toggleTodo\<close>
  returns at once: no request is issued and the state (list, error message,
  loading flag and all other cells) is the one it was called in.
\<close>

theorem toggle_absent_noop:
  assumes "i \<notin> dollar_id ` set (todos s)"
  shows "TodoPage db (Checkbox_change i) s = (s, [])"
  using assms by (simp add: toggleTodo_def find_dollar_id_None [symmetric])

theorem toggle_absent_noop_witness:
  "js ''t9'' \<notin> dollar_id ` set (todos page_state) \<and>
   TodoPage store_up (Checkbox_change (js ''t9'')) page_state = (page_state, [])"
proof -
  have absent: "js ''t9'' \<notin> dollar_id ` set (todos page_state)"
    by (simp add: fixture_defs)
  from absent toggle_absent_noop [OF absent, of store_up] show ?thesis by simp
qed

section \<open>Delete\<close>

text \<open>
  C5. For every list and every id, \<open>deleteTodo\<close> issues one delete request
  for the id. When it succeeds, the list becomes the old list without the
  entries whose id equals the given one, the other entries unchanged and in
  their order; when it is rejected, the list is unchanged and the error
  message is set.
\<close>

theorem delete_removes_matching:
  "snd (TodoPage db (Delete_click i) s) = [DeleteDocument DATABASE_ID COLLECTION_ID i] \<and>
   (deleteDocument db DATABASE_ID COLLECTION_ID i \<noteq> None \<longrightarrow>
      todos (fst (TodoPage db (Delete_click i) s)) =
        filter (\<lambda>t. dollar_id t \<noteq> i) (todos s) \<and>
      error (fst (TodoPage db (Delete_click i) s)) = None) \<and>
   (deleteDocument db DATABASE_ID COLLECTION_ID i = None \<longrightarrow>
      todos (fst (TodoPage db (Delete_click i) s)) = todos s \<and>
      error (fst (TodoPage db (Delete_click i) s)) = Some (js ''Failed to delete todo''))"
  by (auto simp: deleteTodo_def Let_def)

theorem delete_removes_matching_witness:
  "deleteDocument store_up DATABASE_ID COLLECTION_ID (js ''t1'') \<noteq> None \<and>
   todos (fst (TodoPage store_up (Delete_click (js ''t1'')) page_state)) = [bread] \<and>
   deleteDocument store_down DATABASE_ID COLLECTION_ID (js ''t1'') = None \<and>
   todos (fst (TodoPage store_down (Delete_click (js ''t1'')) page_state)) = [milk, bread] \<and>
   error (fst (TodoPage store_down (Delete_click (js ''t1'')) page_state)) =
     Some (js ''Failed to delete todo'')"
  using delete_removes_matching [of store_up "js ''t1''" page_state]
    delete_removes_matching [of store_down "js ''t1''" page_state]
  by (simp add: fixture_defs)

section \<open>Edit\<close>

text \<open>
  C6. For every id of a todo in the list and every draft that is not empty
  after trimming, a save whose update request succeeds leaves a list of the
  same length in which every entry with that id has the trimmed draft as its
  text and is otherwise the entry it was (same id, same \<open>completed\<close> flag),
  and every other entry is unchanged; the editing id becomes null and the
  draft becomes empty.
\<close>

theorem save_merges_trimmed_draft:
  assumes present: "i \<in> dollar_id ` set (todos s)"
    and draft: "trim (editText s) \<noteq> []"
    and success: "updateDocument db DATABASE_ID COLLECTION_ID i
                    (Todo_field (trim (editText s))) \<noteq> None"
  shows "(let s' = fst (TodoPage db (Save i) s)
          in snd (TodoPage db (Save i) s) =
               [UpdateDocument DATABASE_ID COLLECTION_ID i (Todo_field (trim (editText s)))] \<and>
             length (todos s') = length (todos s) \<and>
             (\<forall>k < length (todos s).
                (dollar_id (todos s ! k) = i \<longrightarrow>
                   todos s' ! k = (todos s ! k)\<lparr>todo := trim (editText s)\<rparr> \<and>
                   todo (todos s' ! k) = trim (editText s) \<and>
                   dollar_id (todos s' ! k) = i \<and>
                   completed (todos s' ! k) = completed (todos s ! k)) \<and>
                (dollar_id (todos s ! k) \<noteq> i \<longrightarrow> todos s' ! k = todos s ! k)) \<and>
             editingId s' = None \<and> editText s' = [])"
  using draft success by (auto simp: saveUpdate_def Let_def)

theorem save_merges_trimmed_draft_witness:
  "js ''t1'' \<in> dollar_id ` set (todos page_state) \<and>
   trim (editText page_state) \<noteq> [] \<and>
   updateDocument store_up DATABASE_ID COLLECTION_ID (js ''t1'')
     (Todo_field (trim (editText page_state))) \<noteq> None \<and>
   todos (fst (TodoPage store_up (Save (js ''t1'')) page_state)) =
     [milk\<lparr>todo := js ''Buy oat milk''\<rparr>, bread] \<and>
   completed (todos (fst (TodoPage store_up (Save (js ''t1'')) page_state)) ! 0) = True \<and>
   editingId (fst (TodoPage store_up (Save (js ''t1'')) page_state)) = None \<and>
   editText (fst (TodoPage store_up (Save (js ''t1'')) page_state)) = []"
proof -
  have present: "js ''t1'' \<in> dollar_id ` set (todos page_state)"
    by (simp add: fixture_defs)
  have draft: "trim (editText page_state) \<noteq> []"
    by (simp add: fixture_defs)
  have success: "updateDocument store_up DATABASE_ID COLLECTION_ID (js ''t1'')
     (Todo_field (trim (editText page_state))) \<noteq> None"
    by (simp add: store_up_def)
  have len: "length (todos page_state) = 2" "todos page_state ! 0 = milk"
    "todos page_state ! 1 = bread" "dollar_id milk = js ''t1''" "dollar_id bread \<noteq> js ''t1''"
    "trim (editText page_state) = js ''Buy oat milk''" "completed milk"
    by (simp_all add: fixture_defs)
  have eq: "\<And>xs a b. xs = [a, b] \<longleftrightarrow> length xs = 2 \<and> xs ! 0 = a \<and> xs ! 1 = (b::unit Todo)"
    by (auto simp: list_eq_iff_nth_eq less_Suc_eq numeral_2_eq_2)
  from save_merges_trimmed_draft [OF present draft success] present draft success len
  show ?thesis
    unfolding eq by (simp add: Let_def)
qed

text \<open>
  C7. For every todo in the list, beginning to edit it and then cancelling
  issues no request in either step, leaves the list (and so the stored text
  of that todo) as it was, and puts the edit-mode cells back to their initial
  values: no editing id and an empty draft. In between, the editing id is the
  todo's id and the draft is its text.
\<close>

theorem edit_then_cancel_roundtrip:
  assumes "find (\<lambda>t. dollar_id t = i) (todos s) = Some t"
  shows "(let begun = TodoPage db (Update_click i) s;
              cancelled = TodoPage db (Cancel) (fst begun)
          in snd begun = [] \<and> snd cancelled = [] \<and>
             editingId (fst begun) = Some i \<and> editText (fst begun) = todo t \<and>
             todos (fst begun) = todos s \<and>
             todos (fst cancelled) = todos s \<and>
             find (\<lambda>t. dollar_id t = i) (todos (fst cancelled)) = Some t \<and>
             editingId (fst cancelled) = editingId initial_state \<and>
             editText (fst cancelled) = editText initial_state \<and>
             editingId (fst cancelled) = None \<and> editText (fst cancelled) = [] \<and>
             fst cancelled = s\<lparr>editingId := None, editText := []\<rparr>)"
  using assms by (simp add: updateToDo_def cancelUpdate_def initial_state_def)

theorem edit_then_cancel_roundtrip_witness:
  "find (\<lambda>t. dollar_id t = js ''t2'') (todos page_state) = Some bread \<and>
   editText (fst (TodoPage store_up (Update_click (js ''t2'')) page_state)) = js ''Buy bread'' \<and>
   fst (TodoPage store_up Cancel (fst (TodoPage store_up (Update_click (js ''t2'')) page_state))) =
     page_state\<lparr>editingId := None, editText := []\<rparr>"
proof -
  have found: "find (\<lambda>t. dollar_id t = js ''t2'') (todos page_state) = Some bread"
    by (simp add: fixture_defs)
  have stored: "todo bread = js ''Buy bread''"
    by (simp add: bread_def)
  from edit_then_cancel_roundtrip [OF found, of store_up] found stored
  show ?thesis unfolding Let_def by metis
qed

section \<open>Blank input\<close>

text \<open>
  C8. For every input text that is empty or consists of white space only,
  submitting the form issues no request and leaves every cell of the state
  (list, error message, loading flag, input text) as it was.
\<close>

theorem blank_submit_noop:
  assumes "trim (todoText s) = []"
  shows "TodoPage db Submit s = (s, [])"
  using assms by (simp add: handleSubmit_def)

theorem blank_submit_noop_witness:
  "trim (todoText blank_state) = [] \<and> TodoPage store_up Submit blank_state = (blank_state, [])"
proof -
  have blank: "trim (todoText blank_state) = []"
    by (simp add: fixture_defs)
  from blank blank_submit_noop [OF blank, of store_up] show ?thesis by simp
qed

section \<open>Loading the list\<close>

text \<open>
  C9. On mount, from the initial state, \<open>fetchTodos\<close> issues one list request
  for the database \<open>todos\<close> and the collection \<open>todosdata\<close>. When it resolves,
  the in-memory list is exactly the returned documents; when it is rejected,
  the list is still empty and the error message is set.
\<close>

theorem initial_fetch:
  "(let s' = fst (TodoPage db Mount initial_state)
    in snd (TodoPage db Mount initial_state) = [ListDocuments (js ''todos'') (js ''todosdata'')] \<and>
       (\<forall>documents. listDocuments db (js ''todos'') (js ''todosdata'') = Some documents \<longrightarrow>
          todos s' = documents \<and> error s' = None \<and> \<not> loading s') \<and>
       (listDocuments db (js ''todos'') (js ''todosdata'') = None \<longrightarrow>
          todos s' = [] \<and> error s' = Some (js ''Failed to fetch todos'') \<and> \<not> loading s'))"
  by (simp add: fetchTodos_def initial_state_def Let_def DATABASE_ID_def COLLECTION_ID_def)

theorem initial_fetch_witness:
  "listDocuments store_up (js ''todos'') (js ''todosdata'') = Some [milk, bread] \<and>
   todos (fst (TodoPage store_up Mount initial_state)) = [milk, bread] \<and>
   listDocuments store_down (js ''todos'') (js ''todosdata'') = None \<and>
   todos (fst (TodoPage store_down Mount initial_state)) = [] \<and>
   error (fst (TodoPage store_down Mount initial_state)) = Some (js ''Failed to fetch todos'')"
proof -
  have up: "listDocuments store_up (js ''todos'') (js ''todosdata'') = Some [milk, bread]"
    by (simp add: store_up_def)
  have down: "listDocuments store_down (js ''todos'') (js ''todosdata'') = None"
    by (simp add: store_down_def)
  from initial_fetch [of store_up] initial_fetch [of store_down] up down
  show ?thesis by (simp add: Let_def)
qed

section \<open>Delete and edit mode\<close>

text \<open>
  C10. \<open>deleteTodo\<close> never writes the edit-mode cells: for every state and
  id, the editing id and the draft after the delete are those before it. So
  after a successful delete of the todo being edited, the editing id still
  holds an id that no entry of the list carries.
\<close>

theorem delete_keeps_edit_mode:
  "(let s' = fst (TodoPage db (Delete_click i) s)
    in editingId s' = editingId s \<and> editText s' = editText s \<and>
       (deleteDocument db DATABASE_ID COLLECTION_ID i \<noteq> None \<and> editingId s = Some i \<longrightarrow>
          editingId s' = Some i \<and> i \<notin> dollar_id ` set (todos s')))"
  by (auto simp: deleteTodo_def Let_def split: option.splits)

theorem delete_keeps_edit_mode_witness:
  "deleteDocument store_up DATABASE_ID COLLECTION_ID (js ''t1'') \<noteq> None \<and>
   editingId page_state = Some (js ''t1'') \<and>
   js ''t1'' \<in> dollar_id ` set (todos page_state) \<and>
   editingId (fst (TodoPage store_up (Delete_click (js ''t1'')) page_state)) = Some (js ''t1'') \<and>
   editText (fst (TodoPage store_up (Delete_click (js ''t1'')) page_state)) = js '' Buy oat milk'' \<and>
   js ''t1'' \<notin> dollar_id ` set (todos (fst (TodoPage store_up (Delete_click (js ''t1'')) page_state)))"
proof -
  have success: "deleteDocument store_up DATABASE_ID COLLECTION_ID (js ''t1'') \<noteq> None"
    by (simp add: store_up_def)
  have editing: "editingId page_state = Some (js ''t1'')"
    "editText page_state = js '' Buy oat milk''"
    "js ''t1'' \<in> dollar_id ` set (todos page_state)"
    by (simp_all add: fixture_defs)
  from delete_keeps_edit_mode [of store_up "js ''t1''" page_state] success editing
  show ?thesis by (simp add: Let_def)
qed

end
